theory Spec2Isabelle
  imports Main
begin

section \<open>The DOTM Redis namespace (backend/dotm_namespace.py)\<close>

text \<open>
  The unit under verification is the constructor of the class \<open>DOTMNamespace\<close>:
  \<^verbatim>\<open>
  def __init__(self, history_key=None):
      self.prefix = 'dotm'
      self.queue = self.prefix + '::queue'
      self.history = self.prefix + '::history'
      self.config = self.prefix + '::config'
      self.state = self.prefix + '::state'
      if history_key:
          self.history_prefix = history_key + '::' + self.prefix
      else:
          self.history_prefix = self.prefix
      self.nodes = self.history_prefix + '::nodes'
      self.connections = self.history_prefix + '::connections'
      self.services = self.history_prefix + '::services'
      self.resolver = self.history_prefix + '::resolver'
      self.checks = self.history_prefix + '::checks'
      self.nodes_checks = self.checks + '::nodes'
      self.services_checks = self.checks + '::services'
  \<close>
  It is embedded statement by statement: the instance is its attribute dictionary, every
  attribute read and every \<open>+\<close> may raise, and the constructor threads the instance
  through the assignments in the order of the source.
\<close>

subsection \<open>Values, errors and objects\<close>

text \<open>
  The values the constructor handles: \<open>None\<close> (the default of \<open>history_key\<close>) and
  strings.
\<close>

datatype pyval = PyNone | PyStr string

datatype error = AttributeError string | TypeError

text \<open>An instance is its attribute dictionary, from attribute names to values.\<close>

type_synonym obj = "string \<rightharpoonup> pyval"

text \<open>Sequencing of a step that may raise with its continuation.\<close>

definition and_then :: "error + 'a \<Rightarrow> ('a \<Rightarrow> error + 'b) \<Rightarrow> error + 'b" where
  "and_then m f = (case m of Inl e \<Rightarrow> Inl e | Inr x \<Rightarrow> f x)"

text \<open>
  Truth value testing, as \<open>if history_key:\<close> does it: \<open>None\<close> and the empty string
  are false, every other string is true.
\<close>

fun truthy :: "pyval \<Rightarrow> bool" where
  "truthy PyNone = False"
| "truthy (PyStr s) = (s \<noteq> [])"

text \<open>
  The operator \<open>+\<close>: concatenation on two strings, a \<open>TypeError\<close> as soon as one
  operand is \<open>None\<close>.
\<close>

fun py_add :: "pyval \<Rightarrow> pyval \<Rightarrow> error + pyval" where
  "py_add (PyStr a) (PyStr b) = Inr (PyStr (a @ b))"
| "py_add _ _ = Inl TypeError"

text \<open>The class attributes: \<open>version = '0.2.0'\<close>.\<close>

definition class_attrs :: obj where
  "class_attrs = [''version'' \<mapsto> PyStr ''0.2.0'']"

text \<open>
  Reading \<open>self.name\<close>: the instance dictionary first, then the class, and an
  \<open>AttributeError\<close> when neither has the name. Writing \<open>self.name = v\<close> stores into
  the instance dictionary.
\<close>

definition getattr :: "obj \<Rightarrow> string \<Rightarrow> error + pyval" where
  "getattr self name =
     (case self name of
        Some v \<Rightarrow> Inr v
      | None \<Rightarrow> (case class_attrs name of
                   Some v \<Rightarrow> Inr v
                 | None \<Rightarrow> Inl (AttributeError name)))"

definition setattr :: "obj \<Rightarrow> string \<Rightarrow> pyval \<Rightarrow> obj" where
  "setattr self name v = self(name \<mapsto> v)"

subsection \<open>The statements of the constructor\<close>

text \<open>The statement \<open>self.target = self.src + 'lit'\<close>.\<close>

definition assign_add :: "string \<Rightarrow> string \<Rightarrow> string \<Rightarrow> obj \<Rightarrow> error + obj" where
  "assign_add target src lit self =
     and_then (getattr self src) (\<lambda>v.
     and_then (py_add v (PyStr lit)) (\<lambda>r.
     Inr (setattr self target r)))"

text \<open>
  The conditional that sets \<open>self.history_prefix\<close>. In the true branch the expression
  \<open>history_key + '::' + self.prefix\<close> is evaluated left to right:
  \<open>(history_key + '::') + self.prefix\<close>.
\<close>

definition assign_history_prefix :: "pyval \<Rightarrow> obj \<Rightarrow> error + obj" where
  "assign_history_prefix history_key self =
     (if truthy history_key then
        and_then (py_add history_key (PyStr ''::'')) (\<lambda>t.
        and_then (getattr self ''prefix'') (\<lambda>p.
        and_then (py_add t p) (\<lambda>r.
        Inr (setattr self ''history_prefix'' r))))
      else
        and_then (getattr self ''prefix'') (\<lambda>p.
        Inr (setattr self ''history_prefix'' p)))"

text \<open>\<open>__init__(self, history_key)\<close>: the assignments in source order.\<close>

definition init :: "obj \<Rightarrow> pyval \<Rightarrow> error + obj" where
  "init self0 history_key =
     and_then (Inr (setattr self0 ''prefix'' (PyStr ''dotm''))) (\<lambda>self.
     and_then (assign_add ''queue'' ''prefix'' ''::queue'' self) (\<lambda>self.
     and_then (assign_add ''history'' ''prefix'' ''::history'' self) (\<lambda>self.
     and_then (assign_add ''config'' ''prefix'' ''::config'' self) (\<lambda>self.
     and_then (assign_add ''state'' ''prefix'' ''::state'' self) (\<lambda>self.
     and_then (assign_history_prefix history_key self) (\<lambda>self.
     and_then (assign_add ''nodes'' ''history_prefix'' ''::nodes'' self) (\<lambda>self.
     and_then (assign_add ''connections'' ''history_prefix'' ''::connections'' self) (\<lambda>self.
     and_then (assign_add ''services'' ''history_prefix'' ''::services'' self) (\<lambda>self.
     and_then (assign_add ''resolver'' ''history_prefix'' ''::resolver'' self) (\<lambda>self.
     and_then (assign_add ''checks'' ''history_prefix'' ''::checks'' self) (\<lambda>self.
     and_then (assign_add ''nodes_checks'' ''checks'' ''::nodes'' self) (\<lambda>self.
     assign_add ''services_checks'' ''checks'' ''::services'' self))))))))))))"

text \<open>
  The call \<open>DOTMNamespace(history_key)\<close> runs \<open>__init__\<close> on a fresh instance, whose
  dictionary is empty; \<open>DOTMNamespace()\<close> is \<open>DOTMNamespace(None)\<close>.
\<close>

definition DOTMNamespace :: "pyval \<Rightarrow> error + obj" where
  "DOTMNamespace history_key = init Map.empty history_key"

text \<open>
  The expression \<open>DOTMNamespace(history_key).name\<close>: construct, then read one
  attribute.
\<close>

definition get_field :: "pyval \<Rightarrow> string \<Rightarrow> error + pyval" where
  "get_field history_key name = and_then (DOTMNamespace history_key) (\<lambda>ns. getattr ns name)"

text \<open>The names \<open>__init__\<close> assigns, in the order of their assignment.\<close>

definition namespace_fields :: "string list" where
  "namespace_fields =
     [''prefix'', ''queue'', ''history'', ''config'', ''state'', ''history_prefix'',
      ''nodes'', ''connections'', ''services'', ''resolver'',
      ''checks'', ''nodes_checks'', ''services_checks'']"

text \<open>The fields that are built on \<open>self.history_prefix\<close>, that field included.\<close>

definition scoped_fields :: "string list" where
  "scoped_fields =
     [''history_prefix'', ''nodes'', ''connections'', ''services'', ''resolver'',
      ''checks'', ''nodes_checks'', ''services_checks'']"

section \<open>What the constructor computes\<close>

lemma and_then_Inr [simp]: "and_then (Inr x) f = f x"
  by (simp add: and_then_def)

lemma and_then_Inl [simp]: "and_then (Inl e) f = Inl e"
  by (simp add: and_then_def)

lemma getattr_setattr_same [simp]: "getattr (setattr self name v) name = Inr v"
  by (simp add: getattr_def setattr_def)

lemma getattr_setattr_other [simp]:
  "name' \<noteq> name \<Longrightarrow> getattr (setattr self name v) name' = getattr self name'"
  by (simp add: getattr_def setattr_def)

lemma assign_add_str:
  "getattr self src = Inr (PyStr s) \<Longrightarrow>
   assign_add target src lit self = Inr (setattr self target (PyStr (s @ lit)))"
  by (simp add: assign_add_def)

text \<open>
  The instance after \<open>__init__\<close>, when the test \<open>if history_key:\<close> fails: the live
  namespace. The starting dictionary \<open>self\<close> is arbitrary; the constructor only adds to it.
\<close>

lemma init_unscoped:
  "\<not> truthy hk \<Longrightarrow> init self hk = Inr (self
     (''prefix'' \<mapsto> PyStr ''dotm'',
      ''queue'' \<mapsto> PyStr ''dotm::queue'',
      ''history'' \<mapsto> PyStr ''dotm::history'',
      ''config'' \<mapsto> PyStr ''dotm::config'',
      ''state'' \<mapsto> PyStr ''dotm::state'',
      ''history_prefix'' \<mapsto> PyStr ''dotm'',
      ''nodes'' \<mapsto> PyStr ''dotm::nodes'',
      ''connections'' \<mapsto> PyStr ''dotm::connections'',
      ''services'' \<mapsto> PyStr ''dotm::services'',
      ''resolver'' \<mapsto> PyStr ''dotm::resolver'',
      ''checks'' \<mapsto> PyStr ''dotm::checks'',
      ''nodes_checks'' \<mapsto> PyStr ''dotm::checks::nodes'',
      ''services_checks'' \<mapsto> PyStr ''dotm::checks::services''))"
  by (simp add: init_def assign_add_def assign_history_prefix_def setattr_def getattr_def)

text \<open>The instance after \<open>__init__\<close>, when the test succeeds: the scoped namespace.\<close>

lemma init_scoped:
  "h \<noteq> [] \<Longrightarrow> init self (PyStr h) = Inr (self
     (''prefix'' \<mapsto> PyStr ''dotm'',
      ''queue'' \<mapsto> PyStr ''dotm::queue'',
      ''history'' \<mapsto> PyStr ''dotm::history'',
      ''config'' \<mapsto> PyStr ''dotm::config'',
      ''state'' \<mapsto> PyStr ''dotm::state'',
      ''history_prefix'' \<mapsto> PyStr (h @ ''::dotm''),
      ''nodes'' \<mapsto> PyStr (h @ ''::dotm::nodes''),
      ''connections'' \<mapsto> PyStr (h @ ''::dotm::connections''),
      ''services'' \<mapsto> PyStr (h @ ''::dotm::services''),
      ''resolver'' \<mapsto> PyStr (h @ ''::dotm::resolver''),
      ''checks'' \<mapsto> PyStr (h @ ''::dotm::checks''),
      ''nodes_checks'' \<mapsto> PyStr (h @ ''::dotm::checks::nodes''),
      ''services_checks'' \<mapsto> PyStr (h @ ''::dotm::checks::services'')))"
  by (simp add: init_def assign_add_def assign_history_prefix_def setattr_def getattr_def)

lemma truthy_cases: "truthy hk \<Longrightarrow> \<exists>h. hk = PyStr h \<and> h \<noteq> []"
  by (cases hk) simp_all

lemma append_longer_neq: "length b < length a \<Longrightarrow> h @ a \<noteq> b"
  by (metis length_append not_add_less2)

lemmas get_field_unfold = get_field_def DOTMNamespace_def getattr_def class_attrs_def

section \<open>The default namespace\<close>

text \<open>
  C1. Constructing with no history key gives an instance with exactly thirteen attributes:
  prefix = "dotm", queue = "dotm::queue", history = "dotm::history", config = "dotm::config",
  state = "dotm::state", history_prefix = "dotm", nodes = "dotm::nodes",
  connections = "dotm::connections", services = "dotm::services",
  resolver = "dotm::resolver", checks = "dotm::checks", nodes_checks = "dotm::checks::nodes",
  services_checks = "dotm::checks::services".
\<close>

theorem construct_default:
  "DOTMNamespace PyNone = Inr
     [''prefix'' \<mapsto> PyStr ''dotm'',
      ''queue'' \<mapsto> PyStr ''dotm::queue'',
      ''history'' \<mapsto> PyStr ''dotm::history'',
      ''config'' \<mapsto> PyStr ''dotm::config'',
      ''state'' \<mapsto> PyStr ''dotm::state'',
      ''history_prefix'' \<mapsto> PyStr ''dotm'',
      ''nodes'' \<mapsto> PyStr ''dotm::nodes'',
      ''connections'' \<mapsto> PyStr ''dotm::connections'',
      ''services'' \<mapsto> PyStr ''dotm::services'',
      ''resolver'' \<mapsto> PyStr ''dotm::resolver'',
      ''checks'' \<mapsto> PyStr ''dotm::checks'',
      ''nodes_checks'' \<mapsto> PyStr ''dotm::checks::nodes'',
      ''services_checks'' \<mapsto> PyStr ''dotm::checks::services'']"
  by (simp add: DOTMNamespace_def init_unscoped)

section \<open>The history scope\<close>

text \<open>
  C2. For every non-empty string history key \<open>h\<close>, the constructed history_prefix is
  \<open>h + "::dotm"\<close>; in particular, for \<open>h = "run42"\<close>, history_prefix is "run42::dotm",
  nodes is "run42::dotm::nodes", checks is "run42::dotm::checks" and nodes_checks is
  "run42::dotm::checks::nodes".
\<close>

theorem history_key_scopes_prefix:
  "(h \<noteq> [] \<longrightarrow> get_field (PyStr h) ''history_prefix'' = Inr (PyStr (h @ ''::dotm'')))
   \<and> get_field (PyStr ''run42'') ''history_prefix'' = Inr (PyStr ''run42::dotm'')
   \<and> get_field (PyStr ''run42'') ''nodes'' = Inr (PyStr ''run42::dotm::nodes'')
   \<and> get_field (PyStr ''run42'') ''checks'' = Inr (PyStr ''run42::dotm::checks'')
   \<and> get_field (PyStr ''run42'') ''nodes_checks'' = Inr (PyStr ''run42::dotm::checks::nodes'')"
  by (simp add: get_field_unfold init_scoped)

theorem history_key_scopes_prefix_witness:
  "''snapshot::7'' \<noteq> []
   \<and> get_field (PyStr ''snapshot::7'') ''history_prefix'' = Inr (PyStr ''snapshot::7::dotm'')"
  using history_key_scopes_prefix [of "''snapshot::7''"] by simp

text \<open>
  C3. For every history key (any string, or \<open>None\<close>), the fields queue, history, config
  and state are exactly "dotm::queue", "dotm::history", "dotm::config" and "dotm::state":
  they never take the history scope.
\<close>

theorem live_fields_unscoped:
  "get_field hk ''queue'' = Inr (PyStr ''dotm::queue'')
   \<and> get_field hk ''history'' = Inr (PyStr ''dotm::history'')
   \<and> get_field hk ''config'' = Inr (PyStr ''dotm::config'')
   \<and> get_field hk ''state'' = Inr (PyStr ''dotm::state'')"
proof (cases "truthy hk")
  case True
  then obtain h where "hk = PyStr h" "h \<noteq> []" using truthy_cases by blast
  then show ?thesis by (simp add: get_field_unfold init_scoped)
next
  case False
  then show ?thesis by (simp add: get_field_unfold init_unscoped)
qed

text \<open>
  C4 as stated: for every string history key passed to the constructor, the empty string
  included, history_prefix is \<open>history_key + "::" + prefix\<close>. At the empty string the
  test \<open>if history_key:\<close> fails and history_prefix is \<open>prefix\<close>, not \<open>"::" + prefix\<close>.
\<close>

theorem empty_history_key_not_spliced:
  "get_field (PyStr []) ''prefix'' = Inr (PyStr ''dotm'')
   \<and> get_field (PyStr []) ''history_prefix'' = Inr (PyStr ''dotm'')
   \<and> get_field (PyStr []) ''history_prefix'' \<noteq> Inr (PyStr ([] @ ''::'' @ ''dotm''))"
  by (simp add: get_field_unfold init_unscoped)

text \<open>
  C4, amended. The field prefix is "dotm" for every argument. For every non-empty string
  history key \<open>h\<close>, history_prefix is \<open>h + "::" + prefix\<close>; when no history key is given,
  or the empty string is given, history_prefix is \<open>prefix\<close>.
\<close>

theorem history_prefix_rule:
  "\<exists>p. get_field hk ''prefix'' = Inr (PyStr p) \<and> p = ''dotm''
     \<and> (\<forall>h. hk = PyStr h \<and> h \<noteq> [] \<longrightarrow>
            get_field hk ''history_prefix'' = Inr (PyStr (h @ ''::'' @ p)))
     \<and> (hk = PyNone \<or> hk = PyStr [] \<longrightarrow> get_field hk ''history_prefix'' = Inr (PyStr p))"
proof (cases "truthy hk")
  case True
  then obtain h where "hk = PyStr h" "h \<noteq> []" using truthy_cases by blast
  then show ?thesis by (simp add: get_field_unfold init_scoped)
next
  case False
  then show ?thesis by (auto simp add: get_field_unfold init_unscoped)
qed

theorem history_prefix_rule_witness:
  "''run42'' \<noteq> []
   \<and> get_field (PyStr ''run42'') ''history_prefix'' = Inr (PyStr (''run42'' @ ''::'' @ ''dotm''))
   \<and> get_field (PyStr []) ''history_prefix'' = Inr (PyStr ''dotm'')
   \<and> get_field PyNone ''history_prefix'' = Inr (PyStr ''dotm'')"
  using history_prefix_rule [of "PyStr ''run42''"] history_prefix_rule [of "PyStr []"]
    history_prefix_rule [of PyNone]
  by auto

text \<open>
  C5. For every argument (any string, or \<open>None\<close>) the constructed fields satisfy:
  nodes, connections, services, resolver and checks are history_prefix followed by
  "::nodes", "::connections", "::services", "::resolver" and "::checks"; nodes_checks and
  services_checks are checks followed by "::nodes" and "::services".
\<close>

theorem derived_fields:
  "\<exists>hp ck. get_field hk ''history_prefix'' = Inr (PyStr hp)
     \<and> get_field hk ''nodes'' = Inr (PyStr (hp @ ''::nodes''))
     \<and> get_field hk ''connections'' = Inr (PyStr (hp @ ''::connections''))
     \<and> get_field hk ''services'' = Inr (PyStr (hp @ ''::services''))
     \<and> get_field hk ''resolver'' = Inr (PyStr (hp @ ''::resolver''))
     \<and> get_field hk ''checks'' = Inr (PyStr ck) \<and> ck = hp @ ''::checks''
     \<and> get_field hk ''nodes_checks'' = Inr (PyStr (ck @ ''::nodes''))
     \<and> get_field hk ''services_checks'' = Inr (PyStr (ck @ ''::services''))"
proof (cases "truthy hk")
  case True
  then obtain h where "hk = PyStr h" "h \<noteq> []" using truthy_cases by blast
  then show ?thesis by (simp add: get_field_unfold init_scoped)
next
  case False
  then show ?thesis by (simp add: get_field_unfold init_unscoped)
qed

text \<open>
  C9. Constructing with the empty string as history key gives the same instance, field
  for field, as constructing with no history key; its history_prefix is "dotm". The empty
  key is treated as absent.
\<close>

theorem empty_history_key_is_absent:
  "\<exists>ns. DOTMNamespace (PyStr []) = Inr ns \<and> DOTMNamespace PyNone = Inr ns
     \<and> ns ''history_prefix'' = Some (PyStr ''dotm'')"
  by (simp add: DOTMNamespace_def init_unscoped)

section \<open>Totality\<close>

text \<open>
  C7. Construction never fails. For every string argument (the empty string included) and
  for \<open>None\<close>, the constructor raises no error, and the instance has exactly the thirteen
  fields, each holding a string.
\<close>

theorem construction_total:
  "\<exists>ns. DOTMNamespace hk = Inr ns
     \<and> dom ns = set namespace_fields
     \<and> (\<forall>name \<in> set namespace_fields. \<exists>s. ns name = Some (PyStr s))
     \<and> distinct namespace_fields \<and> length namespace_fields = 13"
proof (cases "truthy hk")
  case True
  then obtain h where "hk = PyStr h" "h \<noteq> []" using truthy_cases by blast
  then show ?thesis
    by (simp add: DOTMNamespace_def init_scoped namespace_fields_def set_eq_subset)
next
  case False
  then show ?thesis
    by (simp add: DOTMNamespace_def init_unscoped namespace_fields_def set_eq_subset)
qed

theorem construction_total_witness:
  "\<exists>ns s. DOTMNamespace (PyStr []) = Inr ns \<and> ''services_checks'' \<in> set namespace_fields
     \<and> ns ''services_checks'' = Some (PyStr s)"
proof -
  from construction_total [of "PyStr []"] obtain ns where
    ns: "DOTMNamespace (PyStr []) = Inr ns"
    and strs: "\<forall>name \<in> set namespace_fields. \<exists>s. ns name = Some (PyStr s)"
    by blast
  have mem: "''services_checks'' \<in> set namespace_fields" by (simp add: namespace_fields_def)
  with strs obtain s where "ns ''services_checks'' = Some (PyStr s)" by blast
  with ns mem show ?thesis by blast
qed

section \<open>Separation of the scopes\<close>

text \<open>
  C8. History-scoped keys do not collide with live keys: for every non-empty string
  history key \<open>h\<close>, each of history_prefix, nodes, connections, services, resolver, checks,
  nodes_checks and services_checks of the instance constructed with \<open>h\<close> is a string
  different from the same field of the instance constructed with no history key.
\<close>

theorem scoped_differs_from_live:
  "h \<noteq> [] \<Longrightarrow>
   \<forall>name \<in> set scoped_fields. \<exists>a b.
      get_field (PyStr h) name = Inr (PyStr a) \<and> get_field PyNone name = Inr (PyStr b)
      \<and> a \<noteq> b"
  by (simp add: scoped_fields_def get_field_unfold init_scoped init_unscoped append_longer_neq)

theorem scoped_differs_from_live_witness:
  "''run42'' \<noteq> [] \<and> ''checks'' \<in> set scoped_fields
   \<and> (\<exists>a b. get_field (PyStr ''run42'') ''checks'' = Inr (PyStr a)
          \<and> get_field PyNone ''checks'' = Inr (PyStr b) \<and> a \<noteq> b)"
proof -
  have ne: "''run42'' \<noteq> []" by simp
  have mem: "''checks'' \<in> set scoped_fields" by (simp add: scoped_fields_def)
  from scoped_differs_from_live [OF ne] mem show ?thesis by blast
qed

text \<open>
  C10. The history key determines the scope injectively on non-empty keys: for two
  distinct non-empty strings \<open>h1\<close> and \<open>h2\<close> the two history_prefix values differ, and so
  does each of nodes, connections, services, resolver, checks, nodes_checks and
  services_checks.
\<close>

theorem scopes_injective:
  "h1 \<noteq> [] \<Longrightarrow> h2 \<noteq> [] \<Longrightarrow> h1 \<noteq> h2 \<Longrightarrow>
   \<forall>name \<in> set scoped_fields. \<exists>a b.
      get_field (PyStr h1) name = Inr (PyStr a) \<and> get_field (PyStr h2) name = Inr (PyStr b)
      \<and> a \<noteq> b"
  by (simp add: scoped_fields_def get_field_unfold init_scoped)

theorem scopes_injective_witness:
  "''a'' \<noteq> [] \<and> ''a:'' \<noteq> [] \<and> ''a'' \<noteq> ''a:'' \<and> ''history_prefix'' \<in> set scoped_fields
   \<and> (\<exists>a b. get_field (PyStr ''a'') ''history_prefix'' = Inr (PyStr a)
          \<and> get_field (PyStr ''a:'') ''history_prefix'' = Inr (PyStr b) \<and> a \<noteq> b)"
proof -
  have ne1: "''a'' \<noteq> []" and ne2: "''a:'' \<noteq> []" and ne: "''a'' \<noteq> ''a:''" by simp_all
  have mem: "''history_prefix'' \<in> set scoped_fields" by (simp add: scoped_fields_def)
  from scopes_injective [OF ne1 ne2 ne] mem ne show ?thesis by blast
qed

end
